theory Spec2Isabelle
  imports Main
begin

section \<open>JavaScript values, objects and JSX elements\<close>

text \<open>
  The values a property of a props object can hold. \<open>Ref\<close> stands for a function or an
  object (an event handler, a style object, a React node), known by its identity only.
\<close>

datatype jsval = Undefined | Null | Bool bool | Num int | Str string | Ref nat

text \<open>
  A props object: its own properties. A key can be present with the value \<open>Undefined\<close>,
  which is not the same object as one without the key, although reading the key gives
  \<open>Undefined\<close> in both.
\<close>

type_synonym obj = "string \<rightharpoonup> jsval"

text \<open>Reading a property, \<^verbatim>\<open>ob[k]\<close>: a missing key reads as \<open>Undefined\<close>.\<close>

definition read_prop :: "obj \<Rightarrow> string \<Rightarrow> jsval" where
  "read_prop ob k = (case ob k of None \<Rightarrow> Undefined | Some v \<Rightarrow> v)"

text \<open>
  The rest element of an object pattern, \<^verbatim>\<open>{ k1, ..., kn, ...rest }\<close>: the own
  properties of the object whose keys are not among the named ones.
\<close>

definition rest_props :: "string list \<Rightarrow> obj \<Rightarrow> obj" where
  "rest_props ks ob = ob |` (- set ks)"

text \<open>
  The value of a JSX expression: an element with its tag, the props object built from
  its attributes, and the children written between its tags; a child is an element or the
  value of an expression in braces. A \<^verbatim>\<open>children\<close> key that reaches an
  element through a spread stays in its props like any other key.
\<close>

datatype node = Value jsval | Element (tag: string) (attrs: obj) (children: "node list")

text \<open>The element nodes of a tree, in document order.\<close>

fun elements :: "node \<Rightarrow> node list" where
  "elements (Value v) = []"
| "elements (Element t a cs) = Element t a cs # concat (map elements cs)"

definition by_tag :: "string \<Rightarrow> node \<Rightarrow> node list" where
  "by_tag t n = filter (\<lambda>e. tag e = t) (elements n)"

text \<open>
  The text of a tree: React renders a string or a number child as a text node, and
  \<^verbatim>\<open>undefined\<close>, \<^verbatim>\<open>null\<close>, booleans as nothing. Only the
  children written in the JSX count: a \<^verbatim>\<open>children\<close> prop that a spread puts
  on the void element \<^verbatim>\<open>input\<close> is no text of the tree.
\<close>

fun renders_text :: "jsval \<Rightarrow> bool" where
  "renders_text (Str s) = True"
| "renders_text (Num i) = True"
| "renders_text v = False"

fun text_nodes :: "node \<Rightarrow> jsval list" where
  "text_nodes (Value v) = (if renders_text v then [v] else [])"
| "text_nodes (Element t a cs) = concat (map text_nodes cs)"

text \<open>The class of an element is its \<^verbatim>\<open>className\<close> prop.\<close>

definition class_of :: "node \<Rightarrow> jsval" where
  "class_of e = read_prop (attrs e) ''className''"

section \<open>Input (src/components/Input.tsx)\<close>

text \<open>The five fields the parameter pattern of \<^verbatim>\<open>Input\<close> names.\<close>

definition named_fields :: "string list" where
  "named_fields = [''label'', ''placeholder'', ''type'', ''inputClassName'', ''labelClassName'']"

text \<open>
  \<^verbatim>\<open>
  function Input({ label, placeholder, type, inputClassName, labelClassName, ...props }) {
    return (
      <label className={labelClassName}>
        {label}
        <input className={inputClassName} type={type} placeholder={placeholder} {...props} />
      </label>
    );
  }
  \<close>
  The attributes of the \<^verbatim>\<open>input\<close> build an object left to right, so the
  spread of \<^verbatim>\<open>props\<close> comes last and overrides the keys before it.
\<close>

definition Input :: "obj \<Rightarrow> node" where
  "Input bag =
    (let label = read_prop bag ''label'';
         placeholder = read_prop bag ''placeholder'';
         type = read_prop bag ''type'';
         inputClassName = read_prop bag ''inputClassName'';
         labelClassName = read_prop bag ''labelClassName'';
         props = rest_props named_fields bag
     in Element ''label'' [''className'' \<mapsto> labelClassName]
          [Value label,
           Element ''input''
             ([''className'' \<mapsto> inputClassName, ''type'' \<mapsto> type,
               ''placeholder'' \<mapsto> placeholder] ++ props)
             []])"

section \<open>Button\<close>

text \<open>
  Modelled from the spec: src/components/Button.tsx is not among the sources. The spec
  (4.1, 6) gives Button an arbitrary attribute mapping and has it forward every
  caller-supplied attribute unchanged to the underlying interactive element, with no
  state, validation or error; that is \<^verbatim>\<open><button {...props} />\<close>.
\<close>

definition Button :: "obj \<Rightarrow> node" where
  "Button props = Element ''button'' props []"

section \<open>The entry point and the package manifest\<close>

text \<open>
  Modelled from the spec: src/index.ts is not among the sources. The spec (4.3, 6) makes
  it a mapping from public component name to component with the members Button and Input;
  HOW_TO_CREATE_A_COMPONENT_LIBRARY.md (lines 241-245) lists the file as the two
  re-exports of the default exports of ./components/Button and ./components/Input.
\<close>

definition index_exports :: "(string \<times> (obj \<Rightarrow> node)) list" where
  "index_exports = [(''Button'', Button), (''Input'', Input)]"

definition index_path :: string where
  "index_path = ''src/index.ts''"

text \<open>
  Modelled from the spec: package.json is not among the sources. The spec (6) has it
  declare the entry paths per module system; HOW_TO_CREATE_A_COMPONENT_LIBRARY.md lists
  its \<^verbatim>\<open>exports\<close> field, which has the one subpath \<^verbatim>\<open>"."\<close>.
\<close>

definition package_exports :: "(string \<times> (string \<times> string) list) list" where
  "package_exports =
     [(''.'', [(''import'', ''./dist/component-app.es.js''),
               (''require'', ''./dist/component-app.umd.js''),
               (''types'', ''./dist/index.d.ts'')])]"

section \<open>The build configuration (vite.config.ts)\<close>

text \<open>
  The plugin list holds the React plugin with its Babel plugins, of which the source
  lists none (the React Compiler entry is commented out).
\<close>

datatype plugin = React "string list"

record lib_options =
  entry :: string
  name :: string
  formats :: "string list"
  fileName :: "string \<Rightarrow> string"

record output_options =
  globals :: "(string \<times> string) list"

record rollup_options =
  external :: "string list"
  output' :: output_options

record build_options =
  lib :: lib_options
  rollupOptions :: rollup_options

record user_config =
  plugins :: "plugin list"
  build :: build_options

text \<open>
  \<^verbatim>\<open>resolve(__dirname, 'src/index.ts')\<close>: for an absolute directory and a
  relative path with no dot segments, Node joins the two with a separator.
\<close>

definition resolve :: "string \<Rightarrow> string \<Rightarrow> string" where
  "resolve dir p = dir @ ''/'' @ p"

text \<open>The configuration object, for the directory \<^verbatim>\<open>__dirname\<close> of the file.\<close>

definition vite_config :: "string \<Rightarrow> user_config" where
  "vite_config dirname =
     \<lparr> plugins = [React []],
       build =
         \<lparr> lib =
             \<lparr> entry = resolve dirname ''src/index.ts'',
               name = ''ComponentApp'',
               formats = [''es'', ''umd''],
               fileName = (\<lambda>format. ''component-app.'' @ format @ ''.js'') \<rparr>,
           rollupOptions =
             \<lparr> external = [''react'', ''react-dom'', ''react/jsx-runtime''],
               output' =
                 \<lparr> globals = [(''react'', ''React''), (''react-dom'', ''ReactDOM''),
                               (''react/jsx-runtime'', ''jsxRuntime'')] \<rparr> \<rparr> \<rparr> \<rparr>"

text \<open>
  What the build tool makes of the configuration: in library mode with one entry it
  writes one file per format, named by \<^verbatim>\<open>fileName\<close>, and it leaves a module
  out of the bundle when its id is listed as external.
\<close>

definition artifacts :: "user_config \<Rightarrow> string list" where
  "artifacts cfg = map (fileName (lib (build cfg))) (formats (lib (build cfg)))"

definition bundled :: "user_config \<Rightarrow> string \<Rightarrow> bool" where
  "bundled cfg m = (m \<notin> set (external (rollupOptions (build cfg))))"

section \<open>Props objects of the examples\<close>

text \<open>The scenario of the spec (8): a labelled e-mail field with both class strings.\<close>

definition email_bag :: obj where
  "email_bag = [''label'' \<mapsto> Str ''Email'', ''placeholder'' \<mapsto> Str ''you@example.com'',
     ''type'' \<mapsto> Str ''email'', ''inputClassName'' \<mapsto> Str ''field'',
     ''labelClassName'' \<mapsto> Str ''wrap'']"

text \<open>A bag with pass-through keys: an id, a change handler and the disabled flag.\<close>

definition handlers_bag :: obj where
  "handlers_bag = [''label'' \<mapsto> Str ''Name'', ''id'' \<mapsto> Str ''name'',
     ''onChange'' \<mapsto> Ref 7, ''disabled'' \<mapsto> Bool True]"

section \<open>Class strings on the two elements\<close>

text \<open>
  The output has the label and the input as its only element nodes, in this order, the
  label with the class \<^verbatim>\<open>labelClassName\<close> and the input with the class
  \<^verbatim>\<open>inputClassName\<close>.
\<close>

definition classes_applied :: "obj \<Rightarrow> bool" where
  "classes_applied bag =
     (map (\<lambda>e. (tag e, class_of e)) (elements (Input bag)) =
        [(''label'', read_prop bag ''labelClassName''),
         (''input'', read_prop bag ''inputClassName'')])"

section \<open>The object built for the input element\<close>

lemma rest_props_apply: "rest_props ks ob k = (if k \<in> set ks then None else ob k)"
  by (simp add: rest_props_def restrict_map_def)

lemma input_attrs_type:
  "([''className'' \<mapsto> c, ''type'' \<mapsto> t, ''placeholder'' \<mapsto> p]
      ++ rest_props named_fields bag) ''type'' = Some t"
  by (simp add: map_add_def rest_props_apply named_fields_def)

lemma input_attrs_placeholder:
  "([''className'' \<mapsto> c, ''type'' \<mapsto> t, ''placeholder'' \<mapsto> p]
      ++ rest_props named_fields bag) ''placeholder'' = Some p"
  by (simp add: map_add_def rest_props_apply named_fields_def)

lemma input_attrs_className:
  "([''className'' \<mapsto> c, ''type'' \<mapsto> t, ''placeholder'' \<mapsto> p]
      ++ rest_props named_fields bag) ''className''
     = (case bag ''className'' of None \<Rightarrow> Some c | Some v \<Rightarrow> Some v)"
  by (simp add: map_add_def rest_props_apply named_fields_def split: option.split)

lemma input_attrs_forwarded:
  "k \<notin> set named_fields \<Longrightarrow> bag k = Some v \<Longrightarrow>
   ([''className'' \<mapsto> c, ''type'' \<mapsto> t, ''placeholder'' \<mapsto> p]
      ++ rest_props named_fields bag) k = Some v"
  by (simp add: map_add_def rest_props_apply)

lemma input_attrs_dom:
  "dom ([''className'' \<mapsto> c, ''type'' \<mapsto> t, ''placeholder'' \<mapsto> p]
      ++ rest_props named_fields bag)
     = (dom bag - set named_fields) \<union> {''className'', ''type'', ''placeholder''}"
  by (auto simp: rest_props_apply split: if_splits)

section \<open>The shape of the output of Input\<close>

lemma Input_elements:
  "elements (Input bag) =
     [Input bag,
      Element ''input''
        ([''className'' \<mapsto> read_prop bag ''inputClassName'',
          ''type'' \<mapsto> read_prop bag ''type'',
          ''placeholder'' \<mapsto> read_prop bag ''placeholder''] ++ rest_props named_fields bag)
        []]"
  by (simp add: Input_def Let_def)

lemma Input_by_tag_input:
  "by_tag ''input'' (Input bag) =
     [Element ''input''
        ([''className'' \<mapsto> read_prop bag ''inputClassName'',
          ''type'' \<mapsto> read_prop bag ''type'',
          ''placeholder'' \<mapsto> read_prop bag ''placeholder''] ++ rest_props named_fields bag)
        []]"
  unfolding by_tag_def Input_elements by (simp add: Input_def Let_def)

lemma Input_by_tag_label: "by_tag ''label'' (Input bag) = [Input bag]"
  unfolding by_tag_def Input_elements by (simp add: Input_def Let_def)

text \<open>
  C10: whatever the bag holds, also when it is empty, the output of Input is a label
  element; it is the only label of the output, and the input element is one of its two
  children.
\<close>

theorem Input_label_unconditional:
  "(\<exists>a e. Input bag = Element ''label'' a [Value (read_prop bag ''label''), e]
      \<and> by_tag ''input'' (Input bag) = [e])
   \<and> by_tag ''label'' (Input bag) = [Input bag]
   \<and> tag (Input Map.empty) = ''label''"
  by (simp add: Input_by_tag_input Input_by_tag_label) (simp add: Input_def Let_def)

section \<open>The label text\<close>

text \<open>
  C2: when the bag gives \<^verbatim>\<open>label\<close> a string, the output is a label element
  whose first child is that string, followed by an element without text, so the text of
  the label is the string; when the bag has no \<^verbatim>\<open>label\<close>, the output has no
  text at all.
\<close>

theorem Input_label_text:
  "(bag ''label'' = Some (Str s) \<longrightarrow>
      text_nodes (Input bag) = [Str s]
      \<and> (\<exists>a e. Input bag = Element ''label'' a [Value (Str s), e] \<and> text_nodes e = []))
   \<and> (''label'' \<notin> dom bag \<longrightarrow> text_nodes (Input bag) = [])"
  by (simp add: Input_def Let_def read_prop_def domIff)

text \<open>The scenario of the spec has the text "Email"; the empty bag has none.\<close>

theorem Input_label_text_witness:
  "email_bag ''label'' = Some (Str ''Email'') \<and> text_nodes (Input email_bag) = [Str ''Email'']
   \<and> ''label'' \<notin> dom (Map.empty :: obj) \<and> text_nodes (Input Map.empty) = []"
proof -
  have h: "email_bag ''label'' = Some (Str ''Email'')" by (simp add: email_bag_def)
  have e: "''label'' \<notin> dom (Map.empty :: obj)" by simp
  from h e Input_label_text [of email_bag "''Email''"] Input_label_text [of Map.empty "''x''"]
  show ?thesis by simp
qed

section \<open>Type and placeholder\<close>

text \<open>
  C3: the output has one input element, and its \<^verbatim>\<open>type\<close> and
  \<^verbatim>\<open>placeholder\<close> props are what the bag reads at these keys: any string, legal
  input type or not, arrives unchanged, and for a key the bag does not have the prop reads
  \<^verbatim>\<open>undefined\<close>, which is no attribute. Input has no other result: no bag
  is rejected.
\<close>

theorem Input_type_placeholder_verbatim:
  "\<exists>e. by_tag ''input'' (Input bag) = [e]
     \<and> attrs e ''type'' = Some (read_prop bag ''type'')
     \<and> attrs e ''placeholder'' = Some (read_prop bag ''placeholder'')
     \<and> (bag ''type'' = Some (Str t) \<longrightarrow> read_prop (attrs e) ''type'' = Str t)
     \<and> (bag ''placeholder'' = Some (Str p) \<longrightarrow> read_prop (attrs e) ''placeholder'' = Str p)
     \<and> (''type'' \<notin> dom bag \<longrightarrow> read_prop (attrs e) ''type'' = Undefined)
     \<and> (''placeholder'' \<notin> dom bag \<longrightarrow> read_prop (attrs e) ''placeholder'' = Undefined)"
  unfolding Input_by_tag_input
  by (simp add: input_attrs_type input_attrs_placeholder read_prop_def domIff)

text \<open>A type that no browser knows goes through; the empty bag gives neither attribute.\<close>

theorem Input_type_placeholder_verbatim_witness:
  "(\<exists>e. by_tag ''input''
          (Input [''type'' \<mapsto> Str ''no-such-type'', ''placeholder'' \<mapsto> Str '' ?'']) = [e]
      \<and> read_prop (attrs e) ''type'' = Str ''no-such-type''
      \<and> read_prop (attrs e) ''placeholder'' = Str '' ?'')
   \<and> (\<exists>e. by_tag ''input'' (Input Map.empty) = [e]
      \<and> read_prop (attrs e) ''type'' = Undefined
      \<and> read_prop (attrs e) ''placeholder'' = Undefined)"
proof -
  let ?b = "[''type'' \<mapsto> Str ''no-such-type'', ''placeholder'' \<mapsto> Str '' ?'']"
  have t: "?b ''type'' = Some (Str ''no-such-type'')"
    and p: "?b ''placeholder'' = Some (Str '' ?'')" by simp_all
  have n: "''type'' \<notin> dom (Map.empty :: obj)" "''placeholder'' \<notin> dom (Map.empty :: obj)"
    by simp_all
  from Input_type_placeholder_verbatim [of ?b "''no-such-type''" "'' ?''"] t p
  have 1: "\<exists>e. by_tag ''input'' (Input ?b) = [e]
      \<and> read_prop (attrs e) ''type'' = Str ''no-such-type''
      \<and> read_prop (attrs e) ''placeholder'' = Str '' ?''"
    by blast
  from Input_type_placeholder_verbatim [of Map.empty "''a''" "''b''"] n
  have 2: "\<exists>e. by_tag ''input'' (Input Map.empty) = [e]
      \<and> read_prop (attrs e) ''type'' = Undefined
      \<and> read_prop (attrs e) ''placeholder'' = Undefined"
    by blast
  from 1 2 show ?thesis by (intro conjI)
qed

section \<open>Pass-through attributes\<close>

text \<open>
  C4: a key of the bag that is not one of the five named fields is a key of the rest
  object and of the props of the input element, with the value the bag gives it; the
  keys of the input element are those of the bag without the named fields, and the three
  keys the JSX writes.
\<close>

theorem Input_forwards_rest:
  assumes "k \<notin> set named_fields" and "bag k = Some v"
  shows "\<exists>e. by_tag ''input'' (Input bag) = [e]
     \<and> attrs e k = Some v
     \<and> rest_props named_fields bag k = Some v
     \<and> dom (attrs e) = (dom bag - set named_fields) \<union> {''className'', ''type'', ''placeholder''}"
proof -
  let ?m = "[''className'' \<mapsto> read_prop bag ''inputClassName'',
             ''type'' \<mapsto> read_prop bag ''type'',
             ''placeholder'' \<mapsto> read_prop bag ''placeholder''] ++ rest_props named_fields bag"
  show ?thesis
  proof (rule exI [where x = "Element ''input'' ?m []"], intro conjI)
    show "by_tag ''input'' (Input bag) = [Element ''input'' ?m []]"
      by (rule Input_by_tag_input)
    show "attrs (Element ''input'' ?m []) k = Some v"
      unfolding node.sel using assms by (rule input_attrs_forwarded)
    show "rest_props named_fields bag k = Some v"
      using assms by (simp add: rest_props_apply)
    show "dom (attrs (Element ''input'' ?m [])) =
        (dom bag - set named_fields) \<union> {''className'', ''type'', ''placeholder''}"
      unfolding node.sel by (rule input_attrs_dom)
  qed
qed

text \<open>The change handler of a bag reaches the input element.\<close>

theorem Input_forwards_rest_witness:
  "''onChange'' \<notin> set named_fields \<and> handlers_bag ''onChange'' = Some (Ref 7)
   \<and> (\<exists>e. by_tag ''input'' (Input handlers_bag) = [e] \<and> attrs e ''onChange'' = Some (Ref 7))"
proof -
  have k: "''onChange'' \<notin> set named_fields" by (simp add: named_fields_def)
  have v: "handlers_bag ''onChange'' = Some (Ref 7)" by (simp add: handlers_bag_def)
  from Input_forwards_rest [of "''onChange''" handlers_bag "Ref 7", OF k v]
  obtain e where "by_tag ''input'' (Input handlers_bag) = [e]"
    and "attrs e ''onChange'' = Some (Ref 7)"
    by (elim exE conjE)
  then have "\<exists>e. by_tag ''input'' (Input handlers_bag) = [e]
      \<and> attrs e ''onChange'' = Some (Ref 7)"
    by (intro exI conjI)
  with k v show ?thesis by (intro conjI)
qed

section \<open>A className in the pass-through attributes\<close>

text \<open>
  C5: when the bag has a \<^verbatim>\<open>className\<close> key, the input element carries the
  value of that key as its class, and the output is the same whatever
  \<^verbatim>\<open>inputClassName\<close> is, present or not; the rest object never has the keys
  \<^verbatim>\<open>type\<close> and \<^verbatim>\<open>placeholder\<close>, so the spread cannot override
  these two.
\<close>

theorem Input_className_passthrough_wins:
  assumes "bag ''className'' = Some v"
  shows "(\<exists>e. by_tag ''input'' (Input bag) = [e] \<and> attrs e ''className'' = Some v)
     \<and> Input (bag(''inputClassName'' := w)) = Input bag
     \<and> rest_props named_fields bag ''type'' = None
     \<and> rest_props named_fields bag ''placeholder'' = None"
proof -
  have r: "rest_props named_fields (bag(''inputClassName'' := w)) = rest_props named_fields bag"
    by (rule ext) (simp add: rest_props_apply named_fields_def)
  have m: "[''className'' \<mapsto> c, ''type'' \<mapsto> t, ''placeholder'' \<mapsto> p]
             ++ rest_props named_fields bag
         = [''className'' \<mapsto> c', ''type'' \<mapsto> t, ''placeholder'' \<mapsto> p]
             ++ rest_props named_fields bag"
    for c c' t p
    using assms
    by (intro ext)
      (auto simp: map_add_def rest_props_apply named_fields_def split: option.split)
  have "Input (bag(''inputClassName'' := w)) = Input bag"
    unfolding Input_def Let_def r
    by (simp add: read_prop_def
        m [of "case w of None \<Rightarrow> Undefined | Some v \<Rightarrow> v" _ _
              "case bag ''inputClassName'' of None \<Rightarrow> Undefined | Some v \<Rightarrow> v"])
  then show ?thesis
    unfolding Input_by_tag_input using assms
    by (simp add: input_attrs_className rest_props_apply named_fields_def)
qed

text \<open>The class "other" of the bag wins over the inputClassName "field".\<close>

theorem Input_className_passthrough_wins_witness:
  "[''inputClassName'' \<mapsto> Str ''field'', ''className'' \<mapsto> Str ''other''] ''className''
     = Some (Str ''other'')
   \<and> (\<exists>e. by_tag ''input''
           (Input [''inputClassName'' \<mapsto> Str ''field'', ''className'' \<mapsto> Str ''other'']) = [e]
         \<and> attrs e ''className'' = Some (Str ''other''))
   \<and> Input [''inputClassName'' \<mapsto> Str ''field'', ''className'' \<mapsto> Str ''other'']
       = Input [''className'' \<mapsto> Str ''other'']"
proof -
  let ?b = "[''inputClassName'' \<mapsto> Str ''field'', ''className'' \<mapsto> Str ''other'']"
  have h: "?b ''className'' = Some (Str ''other'')" by simp
  have u: "?b(''inputClassName'' := None) = [''className'' \<mapsto> Str ''other'']"
    by (rule ext) simp
  from Input_className_passthrough_wins [of ?b "Str ''other''" None] h u
  show ?thesis by simp
qed

section \<open>The two class strings\<close>

lemma Input_tags_classes:
  "map (\<lambda>e. (tag e, class_of e)) (elements (Input bag)) =
     [(''label'', read_prop bag ''labelClassName''),
      (''input'', case bag ''className'' of
                    None \<Rightarrow> read_prop bag ''inputClassName'' | Some v \<Rightarrow> v)]"
  unfolding Input_elements
  by (simp add: class_of_def read_prop_def [of "_ ++ _"] input_attrs_className
        split: option.split)
     (simp add: Input_def Let_def read_prop_def)

lemma classes_applied_iff:
  "classes_applied bag \<longleftrightarrow>
     (case bag ''className'' of None \<Rightarrow> True | Some v \<Rightarrow> v = read_prop bag ''inputClassName'')"
  unfolding classes_applied_def Input_tags_classes
  by (simp split: option.split)

text \<open>
  C1, amended: for every bag the output has two element nodes, the label and the input,
  and the class of the label is \<^verbatim>\<open>labelClassName\<close>, also when the bag has a
  \<^verbatim>\<open>className\<close> key; the class of the input is
  \<^verbatim>\<open>inputClassName\<close> when the bag has no \<^verbatim>\<open>className\<close> key, and
  the value of that key when it has one. So without a pass-through
  \<^verbatim>\<open>className\<close> both class strings are applied as the claim says (each
  \<^verbatim>\<open>undefined\<close> when the field is omitted).
\<close>

theorem Input_classes:
  "map (\<lambda>e. (tag e, class_of e)) (elements (Input bag)) =
     [(''label'', read_prop bag ''labelClassName''),
      (''input'', case bag ''className'' of
                    None \<Rightarrow> read_prop bag ''inputClassName'' | Some v \<Rightarrow> v)]
   \<and> class_of (Input bag) = read_prop bag ''labelClassName''
   \<and> (''className'' \<notin> dom bag \<longrightarrow> classes_applied bag)"
proof (intro conjI)
  show "map (\<lambda>e. (tag e, class_of e)) (elements (Input bag)) =
     [(''label'', read_prop bag ''labelClassName''),
      (''input'', case bag ''className'' of
                    None \<Rightarrow> read_prop bag ''inputClassName'' | Some v \<Rightarrow> v)]"
    by (rule Input_tags_classes)
  show "class_of (Input bag) = read_prop bag ''labelClassName''"
    by (simp add: Input_def Let_def class_of_def read_prop_def)
  show "''className'' \<notin> dom bag \<longrightarrow> classes_applied bag"
    by (simp add: classes_applied_iff domIff)
qed

text \<open>
  The scenario of the spec: the label has the class "wrap", the input "field". With a
  pass-through class "other" next to the label class "wrap", the label keeps "wrap" and
  the input has "other".
\<close>

theorem Input_classes_witness:
  "''className'' \<notin> dom email_bag \<and> classes_applied email_bag
   \<and> map (\<lambda>e. (tag e, class_of e)) (elements (Input email_bag)) =
        [(''label'', Str ''wrap''), (''input'', Str ''field'')]
   \<and> map (\<lambda>e. (tag e, class_of e))
        (elements (Input [''labelClassName'' \<mapsto> Str ''wrap'', ''inputClassName'' \<mapsto> Str ''field'',
                          ''className'' \<mapsto> Str ''other''])) =
        [(''label'', Str ''wrap''), (''input'', Str ''other'')]"
proof -
  let ?b = "[''labelClassName'' \<mapsto> Str ''wrap'', ''inputClassName'' \<mapsto> Str ''field'',
             ''className'' \<mapsto> Str ''other'']"
  have h: "''className'' \<notin> dom email_bag" by (simp add: email_bag_def)
  from Input_classes [of email_bag] h have c: "classes_applied email_bag" by simp
  from Input_classes [of email_bag]
  have e: "map (\<lambda>e. (tag e, class_of e)) (elements (Input email_bag)) =
        [(''label'', Str ''wrap''), (''input'', Str ''field'')]"
    by (simp add: email_bag_def read_prop_def)
  from Input_classes [of ?b]
  have o: "map (\<lambda>e. (tag e, class_of e)) (elements (Input ?b)) =
        [(''label'', Str ''wrap''), (''input'', Str ''other'')]"
    by (simp add: read_prop_def)
  from h c e o show ?thesis by (intro conjI)
qed

text \<open>
  C1 as stated fails: with \<^verbatim>\<open>inputClassName\<close> "field" and a pass-through
  \<^verbatim>\<open>className\<close> "other", the input element has the class "other", not "field".
\<close>

theorem Input_classes_counterexample:
  "\<not> classes_applied [''inputClassName'' \<mapsto> Str ''field'', ''className'' \<mapsto> Str ''other'']
   \<and> map class_of (by_tag ''input''
        (Input [''inputClassName'' \<mapsto> Str ''field'', ''className'' \<mapsto> Str ''other'']))
       = [Str ''other'']"
  unfolding Input_by_tag_input
  by (simp add: classes_applied_iff read_prop_def class_of_def input_attrs_className)

section \<open>Button, and what the output of Input depends on\<close>

text \<open>
  C6: every key of the bag is a key of the props of the button element, the one element
  of the output, with the same value, and the element has no other key.
\<close>

theorem Button_pass_through:
  "bag k = Some v \<Longrightarrow>
     by_tag ''button'' (Button bag) = [Button bag]
     \<and> tag (Button bag) = ''button''
     \<and> attrs (Button bag) k = Some v
     \<and> dom (attrs (Button bag)) = dom bag"
  by (simp add: Button_def by_tag_def)

text \<open>The scenario of the spec: a click handler and the disabled flag.\<close>

theorem Button_pass_through_witness:
  "[''onClick'' \<mapsto> Ref 1, ''disabled'' \<mapsto> Bool True] ''disabled'' = Some (Bool True)
   \<and> tag (Button [''onClick'' \<mapsto> Ref 1, ''disabled'' \<mapsto> Bool True]) = ''button''
   \<and> attrs (Button [''onClick'' \<mapsto> Ref 1, ''disabled'' \<mapsto> Bool True]) ''disabled''
       = Some (Bool True)
   \<and> attrs (Button [''onClick'' \<mapsto> Ref 1, ''disabled'' \<mapsto> Bool True]) ''onClick''
       = Some (Ref 1)"
proof -
  let ?b = "[''onClick'' \<mapsto> Ref 1, ''disabled'' \<mapsto> Bool True]"
  have d: "?b ''disabled'' = Some (Bool True)" and c: "?b ''onClick'' = Some (Ref 1)"
    by simp_all
  from Button_pass_through [of ?b "''disabled''" "Bool True"] d
  have 1: "tag (Button ?b) = ''button''" "attrs (Button ?b) ''disabled'' = Some (Bool True)"
    by simp_all
  from Button_pass_through [of ?b "''onClick''" "Ref 1"] c
  have 2: "attrs (Button ?b) ''onClick'' = Some (Ref 1)"
    by simp
  from d 1 2 show ?thesis by (intro conjI)
qed

text \<open>
  The output of Input depends on the bag only through the five reads of the named
  fields and through the rest object: a field given as \<^verbatim>\<open>undefined\<close> renders
  as an omitted one.
\<close>

lemma Input_reads_only:
  assumes "\<forall>k \<in> set named_fields. read_prop bag k = read_prop bag' k"
    and "rest_props named_fields bag = rest_props named_fields bag'"
  shows "Input bag = Input bag'"
  using assms by (simp add: Input_def Let_def named_fields_def)

section \<open>The public interface and the build\<close>

text \<open>
  C8: the entry point exports the two names Button and Input, bound to the two
  components; the build has this one file as its entry; and the package exports one
  subpath, whose import and require targets are the two files the build writes.
\<close>

theorem public_api_surface:
  "map fst index_exports = [''Button'', ''Input'']
   \<and> map_of index_exports ''Button'' = Some Button
   \<and> map_of index_exports ''Input'' = Some Input
   \<and> entry (lib (build (vite_config d))) = resolve d index_path
   \<and> map fst package_exports = [''.'']
   \<and> map_of package_exports ''.'' =
       Some [(''import'', ''./dist/component-app.es.js''),
             (''require'', ''./dist/component-app.umd.js''),
             (''types'', ''./dist/index.d.ts'')]
   \<and> map (\<lambda>f. ''./dist/'' @ f) (artifacts (vite_config d)) =
       [''./dist/component-app.es.js'', ''./dist/component-app.umd.js'']"
  by (simp add: index_exports_def vite_config_def index_path_def package_exports_def
      artifacts_def)

text \<open>
  C9: the configuration lists the two formats es and umd, built from the one entry into
  one file each, and lists react, react-dom and react/jsx-runtime as external, so that
  none of the three is bundled; each has a global name for the UMD file.
\<close>

theorem build_formats_and_externals:
  "formats (lib (build (vite_config d))) = [''es'', ''umd'']
   \<and> entry (lib (build (vite_config d))) = resolve d ''src/index.ts''
   \<and> artifacts (vite_config d) = [''component-app.es.js'', ''component-app.umd.js'']
   \<and> external (rollupOptions (build (vite_config d)))
       = [''react'', ''react-dom'', ''react/jsx-runtime'']
   \<and> \<not> bundled (vite_config d) ''react''
   \<and> \<not> bundled (vite_config d) ''react-dom''
   \<and> \<not> bundled (vite_config d) ''react/jsx-runtime''
   \<and> map fst (globals (output' (rollupOptions (build (vite_config d)))))
       = external (rollupOptions (build (vite_config d)))"
  by (simp add: vite_config_def artifacts_def bundled_def)

end
